theory Spec2Isabelle
  imports Main "HOL-Library.AList"
begin

section \<open>JavaScript values and the object store\<close>

text \<open>
  The values that reach \<^verbatim>\<open>lib/structures/Interaction.js\<close>. Numbers are the
  integers plus \<open>NaN\<close>; symbols and big integers are left out. \<open>Obj\<close> and \<open>Fun\<close> are
  references into the store: two values \<open>Obj a\<close> are the same object.
\<close>

type_synonym addr = nat

datatype jsval =
    Undefined
  | Null
  | Bool bool
  | Num int
  | NaN
  | Str string
  | Obj addr
  | Fun addr

text \<open>The \<^verbatim>\<open>typeof\<close> operator: \<^verbatim>\<open>typeof null\<close> is \<^verbatim>\<open>"object"\<close>.\<close>

fun typeof :: "jsval \<Rightarrow> string" where
  "typeof Undefined = ''undefined''"
| "typeof Null = ''object''"
| "typeof (Bool b) = ''boolean''"
| "typeof (Num n) = ''number''"
| "typeof NaN = ''number''"
| "typeof (Str s) = ''string''"
| "typeof (Obj a) = ''object''"
| "typeof (Fun a) = ''function''"

text \<open>Truthiness, and \<^verbatim>\<open>a || b\<close>, which yields \<open>a\<close> itself when \<open>a\<close> is truthy.\<close>

fun truthy :: "jsval \<Rightarrow> bool" where
  "truthy Undefined = False"
| "truthy Null = False"
| "truthy (Bool b) = b"
| "truthy (Num n) = (n \<noteq> 0)"
| "truthy NaN = False"
| "truthy (Str s) = (s \<noteq> [])"
| "truthy (Obj a) = True"
| "truthy (Fun a) = True"

definition or_else :: "jsval \<Rightarrow> jsval \<Rightarrow> jsval" where
  "or_else a b = (if truthy a then a else b)"

text \<open>
  A property list, in insertion order. \<open>AList.update\<close> overwrites a property in place
  or appends a new one, as a JavaScript assignment does.
\<close>

type_synonym obj = "(string \<times> jsval) list"

text \<open>
  An object of the store: its own data properties, whether it is extensible, and the names
  of its read-only properties. \<^verbatim>\<open>Object.preventExtensions\<close> clears \<open>extensible\<close>;
  \<^verbatim>\<open>Object.freeze\<close> clears it and makes every property read-only. Accessor
  properties, prototype chains and proxies are left out. The store is the list of all
  objects, an address being an index.
\<close>

record object =
  props :: obj
  extensible :: bool
  readonly :: "string list"

type_synonym heap = "object list"

text \<open>What an object literal builds, and what \<^verbatim>\<open>Object.freeze\<close> makes of an object.\<close>

definition literal :: "obj \<Rightarrow> object" where
  "literal ps = \<lparr> props = ps, extensible = True, readonly = [] \<rparr>"


text \<open>Reading a property: an absent one reads as \<^verbatim>\<open>undefined\<close>.\<close>

definition get :: "obj \<Rightarrow> string \<Rightarrow> jsval" where
  "get ob k = (case map_of ob k of None \<Rightarrow> Undefined | Some v \<Rightarrow> v)"

text \<open>An object literal allocates a fresh object at the end of the store.\<close>

definition new_object :: "obj \<Rightarrow> heap \<Rightarrow> addr \<times> heap" where
  "new_object ps h = (length h, h @ [literal ps])"

text \<open>
  The errors: the three local failures the specification names, the \<^verbatim>\<open>TypeError\<close> of
  the language, and an exception thrown by a class that is outside the source, tagged with
  the name of the class.
\<close>

datatype error =
    MalformedPayload
  | InvalidForVariant
  | AlreadyResponded
  | TypeError
  | Thrown string

text \<open>
  Whether the assignment \<^verbatim>\<open>ob.k = v\<close> can store: a property the object has must not
  be read-only, a property it lacks can be added only to an extensible object.
\<close>

definition can_set :: "object \<Rightarrow> string \<Rightarrow> bool" where
  "can_set ob k =
     (if k \<in> set (map fst (props ob)) then k \<notin> set (readonly ob) else extensible ob)"

definition store :: "string \<Rightarrow> jsval \<Rightarrow> object \<Rightarrow> object" where
  "store k v ob = ob\<lparr>props := AList.update k v (props ob)\<rparr>"

text \<open>
  The assignment \<^verbatim>\<open>target.k = v\<close> under \<^verbatim>\<open>"use strict"\<close>: on an object or a
  function it stores when the property can be set and throws a \<^verbatim>\<open>TypeError\<close> when
  it cannot; on every other value it throws a \<^verbatim>\<open>TypeError\<close>.
\<close>

fun set_prop :: "jsval \<Rightarrow> string \<Rightarrow> jsval \<Rightarrow> heap \<Rightarrow> error + heap" where
  "set_prop (Obj a) k v h =
     (if can_set (h ! a) k then Inr (h[a := store k v (h ! a)]) else Inl TypeError)"
| "set_prop (Fun a) k v h =
     (if can_set (h ! a) k then Inr (h[a := store k v (h ! a)]) else Inl TypeError)"
| "set_prop target k v h = Inl TypeError"

section \<open>Collaborators\<close>

text \<open>
  Modelled from the spec: \<^verbatim>\<open>Constants.InteractionResponseType\<close> is not in the source.
  The spec's interface section gives the discriminators: 4 = ChannelMessageWithSource,
  5 = DeferredChannelMessageWithSource, 6 = DeferredUpdateMessage, 7 = UpdateMessage.
\<close>

definition CHANNEL_MESSAGE_WITH_SOURCE :: jsval where
  "CHANNEL_MESSAGE_WITH_SOURCE = Num 4"

definition DEFERRED_CHANNEL_MESSAGE_WITH_SOURCE :: jsval where
  "DEFERRED_CHANNEL_MESSAGE_WITH_SOURCE = Num 5"

definition DEFERRED_UPDATE_MESSAGE :: jsval where
  "DEFERRED_UPDATE_MESSAGE = Num 6"

definition UPDATE_MESSAGE :: jsval where
  "UPDATE_MESSAGE = Num 7"

text \<open>
  The REST client is an opaque handle, and so are the structures that the classes
  \<^verbatim>\<open>Member\<close> and \<^verbatim>\<open>Message\<close> build. Neither class is in the source and the
  specification leaves both outside its scope, so their constructors are parameters of the
  model: each returns the structure it builds, or \<open>None\<close> when it throws.
\<close>

datatype client = Client nat

datatype member = Member nat

datatype message = Message nat

record classes =
  new_Member :: "jsval \<Rightarrow> member option"
  new_Message :: "jsval \<Rightarrow> client \<Rightarrow> message option"

text \<open>
  A call of one of the four methods of the client, with its receiver and its arguments in
  order. A promise is identified by the position of its call in the log of calls.
\<close>

datatype rest_call =
    CreateInteractionResponse client jsval jsval jsval
  | ExecuteWebhook client jsval jsval jsval
  | DeleteWebhookMessage client jsval jsval jsval
  | EditWebhookMessage client jsval jsval jsval jsval

datatype promise = Promise nat

section \<open>The Interaction class\<close>

record interaction =
  id' :: jsval
  client :: client
  applicationId :: jsval
  channelId :: "jsval option"
  data :: "jsval option"
  guildId :: "jsval option"
  member :: "member option"
  message :: "message option"
  token :: "jsval option"
  type :: jsval
  version :: jsval

text \<open>
  A field of type \<open>option\<close> is a property the constructor sets only when the payload has
  it; reading it when it is absent gives \<^verbatim>\<open>undefined\<close>.
\<close>

definition read :: "jsval option \<Rightarrow> jsval" where
  "read p = (case p of None \<Rightarrow> Undefined | Some v \<Rightarrow> v)"

definition when_defined :: "jsval \<Rightarrow> (jsval \<Rightarrow> 'a) \<Rightarrow> 'a option" where
  "when_defined v f = (if v \<noteq> Undefined then Some (f v) else None)"

text \<open>
  \<^verbatim>\<open>if(v !== undefined) { this.p = new C(v); }\<close> for a class \<open>C\<close> outside the source:
  the property is set when the constructor returns, and its exception leaves the enclosing
  constructor.
\<close>

definition construct :: "jsval \<Rightarrow> (jsval \<Rightarrow> 'a option) \<Rightarrow> string \<Rightarrow> error + 'a option" where
  "construct v new name =
     (if v \<noteq> Undefined
      then (case new v of None \<Rightarrow> Inl (Thrown name) | Some x \<Rightarrow> Inr (Some x))
      else Inr None)"

text \<open>
  Modelled from the spec: the superclass \<^verbatim>\<open>Base\<close> is not in the source. By the
  spec's data model the record carries the id it is constructed with; \<open>Base\<close> gives the
  value of the \<^verbatim>\<open>id\<close> property after \<^verbatim>\<open>super(data.id)\<close>.
\<close>

definition Base :: "jsval \<Rightarrow> jsval" where
  "Base i = i"

text \<open>
  The constructor, given the two classes, the properties of the payload and the client. It
  has no \<^verbatim>\<open>throw\<close> of its own; it fails only where \<^verbatim>\<open>new Member\<close> or
  \<^verbatim>\<open>new Message\<close> does, the member being built first.
\<close>

definition new_Interaction :: "classes \<Rightarrow> obj \<Rightarrow> client \<Rightarrow> error + interaction" where
  "new_Interaction cls d c =
     (case construct (get d ''member'') (new_Member cls) ''Member'' of
        Inl e \<Rightarrow> Inl e
      | Inr m \<Rightarrow>
          (case construct (get d ''message'') (\<lambda>v. new_Message cls v c) ''Message'' of
             Inl e \<Rightarrow> Inl e
           | Inr g \<Rightarrow> Inr \<lparr>
               id' = Base (get d ''id''),
               client = c,
               applicationId = get d ''application_id'',
               channelId = when_defined (get d ''channel_id'') (\<lambda>v. v),
               data = when_defined (get d ''data'') (\<lambda>v. v),
               guildId = when_defined (get d ''guild_id'') (\<lambda>v. v),
               member = m,
               message = g,
               token = when_defined (get d ''token'') (\<lambda>v. v),
               type = get d ''type'',
               version = get d ''version'' \<rparr>))"

text \<open>
  The state a method runs in: the receiver, the object store, and the log of the calls made
  on the REST client so far, oldest first.
\<close>

record state =
  this :: interaction
  heap :: heap
  calls :: "rest_call list"

text \<open>
  Calling a method of the client appends the call to the log and returns the client's
  promise for it. What the client does with the request is outside the source.
\<close>

definition dispatch :: "rest_call \<Rightarrow> state \<Rightarrow> (error + promise) \<times> state" where
  "dispatch c s = (Inr (Promise (length (calls s))), s\<lparr>calls := calls s @ [c]\<rparr>)"

definition acknowledge :: "state \<Rightarrow> (error + promise) \<times> state" where
  "acknowledge s =
     (let (a, h) = new_object [(''type'', DEFERRED_UPDATE_MESSAGE)] (heap s)
      in dispatch (CreateInteractionResponse (client (this s)) (id' (this s))
                     (read (token (this s))) (Obj a)) (s\<lparr>heap := h\<rparr>))"

definition createFollowup :: "jsval \<Rightarrow> state \<Rightarrow> (error + promise) \<times> state" where
  "createFollowup options s =
     dispatch (ExecuteWebhook (client (this s)) (applicationId (this s))
                 (read (token (this s))) options) s"

definition createMessage :: "jsval \<Rightarrow> state \<Rightarrow> (error + promise) \<times> state" where
  "createMessage options s =
     (if options \<noteq> Undefined then
        (let (options1, h1) =
               (if typeof options \<noteq> ''object'' \<or> options = Null
                then (let (a, h) = new_object [] (heap s) in (Obj a, h))
                else (options, heap s))
         in case set_prop options1 ''type'' CHANNEL_MESSAGE_WITH_SOURCE h1 of
              Inl e \<Rightarrow> (Inl e, s\<lparr>heap := h1\<rparr>)
            | Inr h2 \<Rightarrow>
                dispatch (CreateInteractionResponse (client (this s)) (id' (this s))
                            (read (token (this s))) options1) (s\<lparr>heap := h2\<rparr>))
      else dispatch (CreateInteractionResponse (client (this s)) (id' (this s))
                       (read (token (this s))) options) s)"

definition "defer" :: "jsval \<Rightarrow> state \<Rightarrow> (error + promise) \<times> state" where
  "defer flags s =
     (let (a, h) = new_object [(''type'', DEFERRED_CHANNEL_MESSAGE_WITH_SOURCE),
                               (''flags'', or_else flags (Num 0))] (heap s)
      in dispatch (CreateInteractionResponse (client (this s)) (id' (this s))
                     (read (token (this s))) (Obj a)) (s\<lparr>heap := h\<rparr>))"

definition deferUpdate :: "state \<Rightarrow> (error + promise) \<times> state" where
  "deferUpdate s =
     (let (a, h) = new_object [(''type'', DEFERRED_UPDATE_MESSAGE)] (heap s)
      in dispatch (CreateInteractionResponse (client (this s)) (id' (this s))
                     (read (token (this s))) (Obj a)) (s\<lparr>heap := h\<rparr>))"


definition edit :: "jsval \<Rightarrow> jsval \<Rightarrow> state \<Rightarrow> (error + promise) \<times> state" where
  "edit messageId options s =
     dispatch (EditWebhookMessage (client (this s)) (applicationId (this s))
                 (read (token (this s))) messageId options) s"

definition editParent :: "jsval \<Rightarrow> state \<Rightarrow> (error + promise) \<times> state" where
  "editParent options s =
     (if options \<noteq> Undefined then
        (let (options1, h1) =
               (if typeof options \<noteq> ''object'' \<or> options = Null
                then (let (a, h) = new_object [] (heap s) in (Obj a, h))
                else (options, heap s))
         in case set_prop options1 ''type'' UPDATE_MESSAGE h1 of
              Inl e \<Rightarrow> (Inl e, s\<lparr>heap := h1\<rparr>)
            | Inr h2 \<Rightarrow>
                dispatch (CreateInteractionResponse (client (this s)) (id' (this s))
                            (read (token (this s))) options1) (s\<lparr>heap := h2\<rparr>))
      else dispatch (CreateInteractionResponse (client (this s)) (id' (this s))
                       (read (token (this s))) options) s)"

section \<open>Sequences of calls\<close>




text \<open>Calling \<open>createFollowup\<close> once for each element of a list, in order.\<close>

fun createFollowups :: "jsval list \<Rightarrow> state \<Rightarrow> (error + promise) list \<times> state" where
  "createFollowups [] s = ([], s)"
| "createFollowups (options # rest) s =
     (let (r, s1) = createFollowup options s;
          (rs, s2) = createFollowups rest s1
      in (r # rs, s2))"


text \<open>
  Example classes: \<^verbatim>\<open>new Member(null)\<close> throws, every other construction returns. A
  payload of the given type, and the state right after the constructor has run on it, with
  one caller object \<^verbatim>\<open>{content: "hi"}\<close> at address 0 and no call made yet;
  \<open>fresh_frozen\<close> is the same state with that object frozen.
\<close>

definition example_classes :: classes where
  "example_classes = \<lparr> new_Member = (\<lambda>v. if v = Null then None else Some (Member 0)),
     new_Message = (\<lambda>v c. Some (Message 0)) \<rparr>"

definition payload :: "jsval \<Rightarrow> obj" where
  "payload t = [(''id'', Str ''1001''), (''application_id'', Str ''2002''),
     (''token'', Str ''tok''), (''type'', t), (''version'', Num 1)]"

definition fresh :: "jsval \<Rightarrow> state" where
  "fresh t = \<lparr> this = projr (new_Interaction example_classes (payload t) (Client 0)),
     heap = [literal [(''content'', Str ''hi'')]], calls = [] \<rparr>"


section \<open>What each method does\<close>

lemma read_when_defined: "read (when_defined v (\<lambda>v. v)) = v"
  by (simp add: read_def when_defined_def)

lemma acknowledge_eq:
  "acknowledge s =
     (Inr (Promise (length (calls s))),
      s\<lparr>heap := heap s @ [literal [(''type'', Num 6)]],
        calls := calls s @ [CreateInteractionResponse (client (this s)) (id' (this s))
                              (read (token (this s))) (Obj (length (heap s)))]\<rparr>)"
  by (simp add: acknowledge_def new_object_def dispatch_def DEFERRED_UPDATE_MESSAGE_def)

lemma deferUpdate_eq:
  "deferUpdate s =
     (Inr (Promise (length (calls s))),
      s\<lparr>heap := heap s @ [literal [(''type'', Num 6)]],
        calls := calls s @ [CreateInteractionResponse (client (this s)) (id' (this s))
                              (read (token (this s))) (Obj (length (heap s)))]\<rparr>)"
  by (simp add: deferUpdate_def new_object_def dispatch_def DEFERRED_UPDATE_MESSAGE_def)

lemma defer_eq:
  "defer flags s =
     (Inr (Promise (length (calls s))),
      s\<lparr>heap := heap s @ [literal [(''type'', Num 5), (''flags'', or_else flags (Num 0))]],
        calls := calls s @ [CreateInteractionResponse (client (this s)) (id' (this s))
                              (read (token (this s))) (Obj (length (heap s)))]\<rparr>)"
  by (simp add: defer_def new_object_def dispatch_def DEFERRED_CHANNEL_MESSAGE_WITH_SOURCE_def)

lemma can_set_literal: "can_set (literal []) k"
  by (simp add: can_set_def literal_def)

lemma store_literal: "store k v (literal []) = literal [(k, v)]"
  by (simp add: store_def literal_def)

lemma createMessage_undefined:
  "createMessage Undefined s =
     (Inr (Promise (length (calls s))),
      s\<lparr>calls := calls s @ [CreateInteractionResponse (client (this s)) (id' (this s))
                              (read (token (this s))) Undefined]\<rparr>)"
  by (simp add: createMessage_def dispatch_def)


lemma createMessage_non_object:
  assumes "v \<noteq> Undefined" and "typeof v \<noteq> ''object'' \<or> v = Null"
  shows "createMessage v s =
     (Inr (Promise (length (calls s))),
      s\<lparr>heap := heap s @ [literal [(''type'', Num 4)]],
        calls := calls s @ [CreateInteractionResponse (client (this s)) (id' (this s))
                              (read (token (this s))) (Obj (length (heap s)))]\<rparr>)"
  using assms
  by (simp add: createMessage_def dispatch_def new_object_def CHANNEL_MESSAGE_WITH_SOURCE_def
      can_set_literal store_literal)

lemma editParent_undefined:
  "editParent Undefined s =
     (Inr (Promise (length (calls s))),
      s\<lparr>calls := calls s @ [CreateInteractionResponse (client (this s)) (id' (this s))
                              (read (token (this s))) Undefined]\<rparr>)"
  by (simp add: editParent_def dispatch_def)


lemma editParent_non_object:
  assumes "v \<noteq> Undefined" and "typeof v \<noteq> ''object'' \<or> v = Null"
  shows "editParent v s =
     (Inr (Promise (length (calls s))),
      s\<lparr>heap := heap s @ [literal [(''type'', Num 7)]],
        calls := calls s @ [CreateInteractionResponse (client (this s)) (id' (this s))
                              (read (token (this s))) (Obj (length (heap s)))]\<rparr>)"
  using assms
  by (simp add: editParent_def dispatch_def new_object_def UPDATE_MESSAGE_def
      can_set_literal store_literal)

lemma createFollowup_eq:
  "createFollowup options s =
     (Inr (Promise (length (calls s))),
      s\<lparr>calls := calls s @ [ExecuteWebhook (client (this s)) (applicationId (this s))
                              (read (token (this s))) options]\<rparr>)"
  by (simp add: createFollowup_def dispatch_def)



section \<open>The outcome of an initial-response method\<close>




lemma createFollowups_state:
  "snd (createFollowups os s) =
     s\<lparr>calls := calls s @ map (ExecuteWebhook (client (this s)) (applicationId (this s))
                                (read (token (this s)))) os\<rparr>"
proof (induction os arbitrary: s)
  case Nil
  show ?case by simp
next
  case (Cons x xs)
  show ?case
    by (simp add: createFollowup_eq Cons.IH split_beta)
qed

lemma createFollowups_results:
  "fst (createFollowups os s) =
     map (\<lambda>i. Inr (Promise i)) [length (calls s) ..< length (calls s) + length os]"
proof (induction os arbitrary: s)
  case Nil
  show ?case by simp
next
  case (Cons x xs)
  have "[length (calls s) ..< length (calls s) + length (x # xs)] =
        length (calls s) # [Suc (length (calls s)) ..< Suc (length (calls s)) + length xs]"
    by (simp add: upt_rec)
  then show ?case
    by (simp add: createFollowup_eq Cons.IH split_beta)
qed

section \<open>The constructor\<close>

lemma new_Interaction_cases:
  "new_Interaction cls d c =
     (if get d ''member'' \<noteq> Undefined \<and> new_Member cls (get d ''member'') = None
      then Inl (Thrown ''Member'')
      else if get d ''message'' \<noteq> Undefined \<and> new_Message cls (get d ''message'') c = None
      then Inl (Thrown ''Message'')
      else Inr \<lparr>
        id' = Base (get d ''id''),
        client = c,
        applicationId = get d ''application_id'',
        channelId = when_defined (get d ''channel_id'') (\<lambda>v. v),
        data = when_defined (get d ''data'') (\<lambda>v. v),
        guildId = when_defined (get d ''guild_id'') (\<lambda>v. v),
        member = (if get d ''member'' \<noteq> Undefined then new_Member cls (get d ''member'') else None),
        message = (if get d ''message'' \<noteq> Undefined
                   then new_Message cls (get d ''message'') c else None),
        token = when_defined (get d ''token'') (\<lambda>v. v),
        type = get d ''type'',
        version = get d ''version'' \<rparr>)"
  by (auto simp add: new_Interaction_def construct_def split: option.splits)

lemma new_Interaction_fields:
  assumes "new_Interaction cls d c = Inr r"
  shows "client r = c" and "applicationId r = get d ''application_id''"
    and "token r = when_defined (get d ''token'') (\<lambda>v. v)" and "type r = get d ''type''"
    and "id' r = Base (get d ''id'')"
proof -
  from assms obtain m g where "r = \<lparr>
        id' = Base (get d ''id''),
        client = c,
        applicationId = get d ''application_id'',
        channelId = when_defined (get d ''channel_id'') (\<lambda>v. v),
        data = when_defined (get d ''data'') (\<lambda>v. v),
        guildId = when_defined (get d ''guild_id'') (\<lambda>v. v),
        member = m,
        message = g,
        token = when_defined (get d ''token'') (\<lambda>v. v),
        type = get d ''type'',
        version = get d ''version'' \<rparr>"
    unfolding new_Interaction_def by (auto split: sum.splits)
  then show "client r = c" and "applicationId r = get d ''application_id''"
    and "token r = when_defined (get d ''token'') (\<lambda>v. v)" and "type r = get d ''type''"
    and "id' r = Base (get d ''id'')"
    by simp_all
qed

section \<open>The example state\<close>

lemma fresh_this:
  "this (fresh t) = \<lparr> id' = Str ''1001'', client = Client 0, applicationId = Str ''2002'',
     channelId = None, data = None, guildId = None, member = None, message = None,
     token = Some (Str ''tok''), type = t, version = Num 1 \<rparr>"
  by (simp add: fresh_def new_Interaction_cases Base_def payload_def get_def when_defined_def)

lemma fresh_heap: "heap (fresh t) = [literal [(''content'', Str ''hi'')]]"
  by (simp add: fresh_def)

lemma fresh_calls: "calls (fresh t) = []"
  by (simp add: fresh_def)






section \<open>The claims\<close>







text \<open>
  C3, as stated, fails. A payload whose type is 99 is accepted: the constructor returns a
  record whose type is 99.
\<close>

theorem unknown_type_accepted:
  "new_Interaction example_classes (payload (Num 99)) (Client 0) =
     Inr \<lparr> id' = Str ''1001'', client = Client 0, applicationId = Str ''2002'',
       channelId = None, data = None, guildId = None, member = None, message = None,
       token = Some (Str ''tok''), type = Num 99, version = Num 1 \<rparr>"
  by (simp add: new_Interaction_cases Base_def payload_def get_def when_defined_def)

text \<open>
  C3, amended. The constructor does not validate the discriminator and never fails with
  \<open>MalformedPayload\<close>. Whenever it returns a record, the record's type is the payload's
  \<^verbatim>\<open>type\<close> property as it is. It returns a record exactly when \<^verbatim>\<open>new Member\<close> and
  \<^verbatim>\<open>new Message\<close>, run on a \<^verbatim>\<open>member\<close> or \<^verbatim>\<open>message\<close> of the payload that is
  not \<^verbatim>\<open>undefined\<close>, do not throw; the type plays no part in that.
\<close>

theorem constructor_copies_type:
  "new_Interaction cls d c \<noteq> Inl MalformedPayload \<and>
   (\<forall>r. new_Interaction cls d c = Inr r \<longrightarrow> type r = get d ''type'') \<and>
   ((\<exists>r. new_Interaction cls d c = Inr r) \<longleftrightarrow>
      (get d ''member'' = Undefined \<or> new_Member cls (get d ''member'') \<noteq> None) \<and>
      (get d ''message'' = Undefined \<or> new_Message cls (get d ''message'') c \<noteq> None))"
  by (auto simp add: new_Interaction_cases)

theorem constructor_copies_type_witness:
  "new_Interaction example_classes (payload (Str ''bogus'')) (Client 7) \<noteq> Inl MalformedPayload \<and>
   type (projr (new_Interaction example_classes (payload (Str ''bogus'')) (Client 7))) = Str ''bogus'' \<and>
   new_Interaction example_classes ((''member'', Null) # payload (Num 2)) (Client 7) =
     Inl (Thrown ''Member'')"
proof -
  have g: "get (payload (Str ''bogus'')) ''member'' = Undefined"
    "get (payload (Str ''bogus'')) ''message'' = Undefined"
    "get (payload (Str ''bogus'')) ''type'' = Str ''bogus''"
    by (simp_all add: payload_def get_def)
  from constructor_copies_type [of example_classes "payload (Str ''bogus'')" "Client 7"] g
  have "new_Interaction example_classes (payload (Str ''bogus'')) (Client 7) \<noteq> Inl MalformedPayload"
    and "type (projr (new_Interaction example_classes (payload (Str ''bogus'')) (Client 7))) = Str ''bogus''"
    by auto
  moreover have "new_Interaction example_classes ((''member'', Null) # payload (Num 2)) (Client 7) =
     Inl (Thrown ''Member'')"
    by (simp add: new_Interaction_cases example_classes_def get_def)
  ultimately show ?thesis by simp
qed







text \<open>
  C6. \<open>defer(64)\<close> hands the REST client a new object with \<^verbatim>\<open>type\<close> 5 and
  \<^verbatim>\<open>flags\<close> 64; \<open>defer()\<close>, whose parameter is then \<^verbatim>\<open>undefined\<close>, hands it a new
  object with \<^verbatim>\<open>type\<close> 5 and \<^verbatim>\<open>flags\<close> 0.
\<close>

theorem defer_flags:
  "defer (Num 64) s =
     (Inr (Promise (length (calls s))),
      s\<lparr>heap := heap s @ [literal [(''type'', Num 5), (''flags'', Num 64)]],
        calls := calls s @ [CreateInteractionResponse (client (this s)) (id' (this s))
                              (read (token (this s))) (Obj (length (heap s)))]\<rparr>) \<and>
   defer Undefined s =
     (Inr (Promise (length (calls s))),
      s\<lparr>heap := heap s @ [literal [(''type'', Num 5), (''flags'', Num 0)]],
        calls := calls s @ [CreateInteractionResponse (client (this s)) (id' (this s))
                              (read (token (this s))) (Obj (length (heap s)))]\<rparr>)"
  by (simp add: defer_eq or_else_def)

theorem defer_flags_witness:
  "calls (snd (defer (Num 64) (fresh (Num 2)))) =
     [CreateInteractionResponse (Client 0) (Str ''1001'') (Str ''tok'') (Obj 1)] \<and>
   heap (snd (defer (Num 64) (fresh (Num 2)))) ! 1 =
     literal [(''type'', Num 5), (''flags'', Num 64)] \<and>
   heap (snd (defer Undefined (fresh (Num 2)))) ! 1 =
     literal [(''type'', Num 5), (''flags'', Num 0)]"
  using defer_flags [of "fresh (Num 2)"]
  by (simp add: fresh_this fresh_heap fresh_calls read_def)

text \<open>
  C7. In every state \<open>deferUpdate\<close> and \<open>acknowledge\<close> return the same result and the
  same state: both hand the REST client a new object \<^verbatim>\<open>{type: 6}\<close> with the record's id
  and token.
\<close>

theorem deferUpdate_acknowledge:
  "deferUpdate s = acknowledge s \<and>
   acknowledge s =
     (Inr (Promise (length (calls s))),
      s\<lparr>heap := heap s @ [literal [(''type'', Num 6)]],
        calls := calls s @ [CreateInteractionResponse (client (this s)) (id' (this s))
                              (read (token (this s))) (Obj (length (heap s)))]\<rparr>)"
  by (simp add: acknowledge_eq deferUpdate_eq)

theorem deferUpdate_acknowledge_witness:
  "deferUpdate (fresh (Num 3)) = acknowledge (fresh (Num 3)) \<and>
   calls (snd (deferUpdate (fresh (Num 3)))) =
     [CreateInteractionResponse (Client 0) (Str ''1001'') (Str ''tok'') (Obj 1)] \<and>
   heap (snd (deferUpdate (fresh (Num 3)))) ! 1 = literal [(''type'', Num 6)]"
  using deferUpdate_acknowledge [of "fresh (Num 3)"]
  by (simp add: fresh_this fresh_heap fresh_calls read_def)

text \<open>
  C8. Any number of calls of \<open>createFollowup\<close>, from any state (so also before any initial
  response), leave the record and the object store as they were; the only change is that
  the log gains one \<^verbatim>\<open>executeWebhook\<close> call per call, in order. Every call returns the
  promise of its own REST call; none fails with \<open>AlreadyResponded\<close>.
\<close>

theorem createFollowups_frame:
  "this (snd (createFollowups os s)) = this s \<and>
   heap (snd (createFollowups os s)) = heap s \<and>
   calls (snd (createFollowups os s)) =
     calls s @ map (ExecuteWebhook (client (this s)) (applicationId (this s))
                      (read (token (this s)))) os \<and>
   fst (createFollowups os s) =
     map (\<lambda>i. Inr (Promise i)) [length (calls s) ..< length (calls s) + length os] \<and>
   Inl AlreadyResponded \<notin> set (fst (createFollowups os s))"
  by (auto simp add: createFollowups_state createFollowups_results)

theorem createFollowups_frame_witness:
  "this (snd (createFollowups [Obj 0, Undefined, Obj 0] (fresh (Num 2)))) = this (fresh (Num 2)) \<and>
   heap (snd (createFollowups [Obj 0, Undefined, Obj 0] (fresh (Num 2)))) =
     [literal [(''content'', Str ''hi'')]] \<and>
   calls (snd (createFollowups [Obj 0, Undefined, Obj 0] (fresh (Num 2)))) =
     [ExecuteWebhook (Client 0) (Str ''2002'') (Str ''tok'') (Obj 0),
      ExecuteWebhook (Client 0) (Str ''2002'') (Str ''tok'') Undefined,
      ExecuteWebhook (Client 0) (Str ''2002'') (Str ''tok'') (Obj 0)] \<and>
   fst (createFollowups [Obj 0, Undefined, Obj 0] (fresh (Num 2))) =
     [Inr (Promise 0), Inr (Promise 1), Inr (Promise 2)]"
proof -
  have "[0 ..< 3] = [0, Suc 0, 2::nat]" by (simp add: upt_rec)
  with createFollowups_frame [of "[Obj 0, Undefined, Obj 0]" "fresh (Num 2)"]
  show ?thesis
    by (simp add: fresh_this fresh_heap fresh_calls read_def)
qed

text \<open>
  C9. On a record built by the constructor from a payload \<open>d\<close> and a client \<open>c\<close>,
  \<open>edit\<close> hands \<^verbatim>\<open>editWebhookMessage\<close> the payload's application id and token, the
  message id and the options as given, and leaves the object store untouched: nothing is
  assigned to the options. The instance below is \<^verbatim>\<open>edit("@original", {content: "x"})\<close>.
\<close>

theorem edit_forwards:
  assumes "new_Interaction cls d c = Inr r" and "this s = r"
  shows "edit messageId options s =
     (Inr (Promise (length (calls s))),
      s\<lparr>calls := calls s @ [EditWebhookMessage c (get d ''application_id'') (get d ''token'')
                              messageId options]\<rparr>)"
proof -
  from assms new_Interaction_fields [OF assms(1)]
  have "client (this s) = c" "applicationId (this s) = get d ''application_id''"
    "read (token (this s)) = get d ''token''"
    by (simp_all add: read_when_defined)
  then show ?thesis by (simp add: edit_def dispatch_def)
qed

theorem edit_forwards_witness:
  "new_Interaction example_classes (payload (Num 2)) (Client 0) = Inr (this (fresh (Num 2))) \<and>
   fst (edit (Str ''@original'') (Obj 0)
          ((fresh (Num 2))\<lparr>heap := [literal [(''content'', Str ''x'')]]\<rparr>)) =
     Inr (Promise 0) \<and>
   calls (snd (edit (Str ''@original'') (Obj 0)
          ((fresh (Num 2))\<lparr>heap := [literal [(''content'', Str ''x'')]]\<rparr>))) =
     [EditWebhookMessage (Client 0) (Str ''2002'') (Str ''tok'') (Str ''@original'') (Obj 0)] \<and>
   heap (snd (edit (Str ''@original'') (Obj 0)
          ((fresh (Num 2))\<lparr>heap := [literal [(''content'', Str ''x'')]]\<rparr>))) =
     [literal [(''content'', Str ''x'')]]"
proof -
  let ?s = "(fresh (Num 2))\<lparr>heap := [literal [(''content'', Str ''x'')]]\<rparr>"
  have n: "new_Interaction example_classes (payload (Num 2)) (Client 0) = Inr (this (fresh (Num 2)))"
    by (simp add: fresh_this new_Interaction_cases Base_def payload_def get_def when_defined_def)
  have t: "this ?s = this (fresh (Num 2))" by simp
  from edit_forwards [OF n t, of "Str ''@original''" "Obj 0"] n show ?thesis
    by (simp add: fresh_calls payload_def get_def)
qed

text \<open>
  C10. With \<^verbatim>\<open>undefined\<close> options, \<open>createMessage\<close> and \<open>editParent\<close> hand
  \<^verbatim>\<open>undefined\<close> to the REST client and leave the store untouched. With options that are
  neither \<^verbatim>\<open>undefined\<close> nor an object (a string, a number, a boolean, a function, or
  \<^verbatim>\<open>null\<close>), they hand over a new object whose only property is the forced \<^verbatim>\<open>type\<close>;
  the caller's value is in neither the request nor the store.
\<close>

theorem options_not_an_object:
  "createMessage Undefined s =
     (Inr (Promise (length (calls s))),
      s\<lparr>calls := calls s @ [CreateInteractionResponse (client (this s)) (id' (this s))
                              (read (token (this s))) Undefined]\<rparr>) \<and>
   editParent Undefined s =
     (Inr (Promise (length (calls s))),
      s\<lparr>calls := calls s @ [CreateInteractionResponse (client (this s)) (id' (this s))
                              (read (token (this s))) Undefined]\<rparr>) \<and>
   (v \<noteq> Undefined \<and> (typeof v \<noteq> ''object'' \<or> v = Null) \<longrightarrow>
      createMessage v s =
        (Inr (Promise (length (calls s))),
         s\<lparr>heap := heap s @ [literal [(''type'', Num 4)]],
           calls := calls s @ [CreateInteractionResponse (client (this s)) (id' (this s))
                                 (read (token (this s))) (Obj (length (heap s)))]\<rparr>) \<and>
      editParent v s =
        (Inr (Promise (length (calls s))),
         s\<lparr>heap := heap s @ [literal [(''type'', Num 7)]],
           calls := calls s @ [CreateInteractionResponse (client (this s)) (id' (this s))
                                 (read (token (this s))) (Obj (length (heap s)))]\<rparr>))"
  using createMessage_undefined editParent_undefined createMessage_non_object editParent_non_object
  by blast

theorem options_not_an_object_witness:
  "Str ''hello'' \<noteq> Undefined \<and> typeof (Str ''hello'') \<noteq> ''object'' \<and>
   heap (snd (createMessage Undefined (fresh (Num 2)))) = [literal [(''content'', Str ''hi'')]] \<and>
   calls (snd (createMessage Undefined (fresh (Num 2)))) =
     [CreateInteractionResponse (Client 0) (Str ''1001'') (Str ''tok'') Undefined] \<and>
   heap (snd (createMessage (Str ''hello'') (fresh (Num 2)))) =
     [literal [(''content'', Str ''hi'')], literal [(''type'', Num 4)]] \<and>
   calls (snd (createMessage (Str ''hello'') (fresh (Num 2)))) =
     [CreateInteractionResponse (Client 0) (Str ''1001'') (Str ''tok'') (Obj 1)] \<and>
   heap (snd (editParent (Str ''hello'') (fresh (Num 2)))) =
     [literal [(''content'', Str ''hi'')], literal [(''type'', Num 7)]]"
proof -
  have h: "Str ''hello'' \<noteq> Undefined \<and> (typeof (Str ''hello'') \<noteq> ''object'' \<or> Str ''hello'' = Null)"
    by simp
  from options_not_an_object [of "fresh (Num 2)" "Str ''hello''"] h
  show ?thesis
    by (simp add: fresh_this fresh_heap fresh_calls read_def)
qed

end
